theory Spec2Isabelle
  imports Main
begin

section \<open>Package cli: commands, options and the option resolver\<close>

text \<open>
  This theory embeds \<^verbatim>\<open>src/tmsu/cli/command.go\<close>: the \<^verbatim>\<open>Command\<close> interface, the
  package variable \<^verbatim>\<open>globalOptions\<close> and the function \<^verbatim>\<open>LookupOption\<close>.
\<close>

subsection \<open>Data model\<close>

text \<open>
  Modelled from the spec: the struct type \<^verbatim>\<open>Option\<close> is declared in another file of
  package cli. \<^verbatim>\<open>command.go\<close> reads its fields \<^verbatim>\<open>LongName\<close> and \<^verbatim>\<open>ShortName\<close>, compares
  them with a \<^verbatim>\<open>string\<close>, and builds values by the positional literal
  \<^verbatim>\<open>Option{"-v", "--verbose", "show verbose messages"}\<close>. The order of the three fields
  is the one the specification gives: ShortName, LongName, Description.
\<close>

record Option =
  ShortName :: string
  LongName :: string
  Description :: string

text \<open>
  Modelled from the spec: the type \<^verbatim>\<open>Options\<close> is declared in another file of the package.
  \<^verbatim>\<open>command.go\<close> builds it by an unkeyed composite literal of \<^verbatim>\<open>Option\<close> values and
  iterates it with \<^verbatim>\<open>range\<close>: an ordered sequence of \<^verbatim>\<open>Option\<close>.
\<close>

type_synonym Options = "Option list"

text \<open>
  Modelled from the spec: \<^verbatim>\<open>CommandName\<close> is declared in another file of the package; it
  is an identifier of a command and plays no part in option lookup.
\<close>

type_synonym CommandName = string

text \<open>
  The interface \<^verbatim>\<open>Command\<close> (lines 20 to 26). A non-nil interface value is a record of
  what its five methods return; the methods are taken to be total and free of effects,
  which is what the interface's callers in this file rely on. \<^verbatim>\<open>Exec\<close> returns a Go
  \<^verbatim>\<open>error\<close>: \<open>None\<close> is the nil error, \<open>Some msg\<close> an error with that message.
  A variable of interface type may hold nil, so a \<^verbatim>\<open>Command\<close> argument is a
  \<open>Command option\<close>, with \<open>None\<close> for nil.
\<close>

record Command =
  Name :: CommandName
  Synopsis :: string
  Description :: string
  Options :: Options
  Exec :: "Options \<Rightarrow> string list \<Rightarrow> string option"

text \<open>
  A Go run-time panic. The only expression of \<^verbatim>\<open>LookupOption\<close> that can panic is the
  method call \<^verbatim>\<open>command.Options()\<close>, which dereferences the interface value.
\<close>

datatype panic = NilPointerDereference

subsection \<open>The global option registry\<close>

text \<open>
  The package variable \<^verbatim>\<open>globalOptions\<close> with its initialiser (lines 46 to 48). No
  statement of the file assigns to it.
\<close>

definition globalOptions :: Options where
  "globalOptions =
     [\<lparr>ShortName = ''-v'', LongName = ''--verbose'',
       Option.Description = ''show verbose messages''\<rparr>,
      \<lparr>ShortName = ''-h'', LongName = ''--help'',
       Option.Description = ''show help and exit''\<rparr>,
      \<lparr>ShortName = ''-V'', LongName = ''--version'',
       Option.Description = ''show version information and exit''\<rparr>]"

subsection \<open>The resolver\<close>

text \<open>
  The loop that \<^verbatim>\<open>LookupOption\<close> runs twice, first over \<^verbatim>\<open>globalOptions\<close> and then
  over \<^verbatim>\<open>command.Options()\<close>:
  \<^verbatim>\<open>
  for _, option := range options {
      if option.LongName == name || option.ShortName == name {
          return &option
      }
  }
  \<close>
  \<open>Some opt\<close> is the early return, \<open>None\<close> is the loop running to its end. The loop
  variable \<^verbatim>\<open>option\<close> is a copy of the element, and \<^verbatim>\<open>&option\<close> points to that copy:
  the result is the value of the element, not a reference into the sequence. Go
  compares strings byte by byte, as HOL compares lists of characters.
\<close>

fun rangeOptions :: "Options \<Rightarrow> string \<Rightarrow> Option option" where
  "rangeOptions [] name = None"
| "rangeOptions (opt # rest) name =
     (if LongName opt = name \<or> ShortName opt = name then Some opt
      else rangeOptions rest name)"

text \<open>
  The method call \<^verbatim>\<open>command.Options()\<close> on an interface value: a panic on nil.
\<close>

definition callOptions :: "Command option \<Rightarrow> panic + Options" where
  "callOptions command =
     (case command of
        None \<Rightarrow> Inl NilPointerDereference
      | Some c \<Rightarrow> Inr (Options c))"

text \<open>
  \<^verbatim>\<open>LookupOption\<close> (lines 28 to 44). The first argument is the value of the package
  variable \<^verbatim>\<open>globalOptions\<close> when the function is called, which in this program is
  always the constant \<open>globalOptions\<close>. The result \<open>Inr (Some opt)\<close> is a pointer to a copy of
  \<open>opt\<close>, \<open>Inr None\<close> is the nil pointer, and \<open>Inl p\<close> is a panic.
\<close>

definition LookupOption :: "Options \<Rightarrow> Command option \<Rightarrow> string \<Rightarrow> panic + Option option" where
  "LookupOption globals command name =
     (case rangeOptions globals name of
        Some opt \<Rightarrow> Inr (Some opt)
      | None \<Rightarrow>
          (if command \<noteq> None then
             (case callOptions command of
                Inl p \<Rightarrow> Inl p
              | Inr opts \<Rightarrow>
                  (case rangeOptions opts name of
                     Some opt \<Rightarrow> Inr (Some opt)
                   | None \<Rightarrow> Inr None))
           else Inr None))"

section \<open>Properties of the scan\<close>

lemma rangeOptions_None_iff:
  "rangeOptions opts name = None \<longleftrightarrow>
     (\<forall>opt \<in> set opts. LongName opt \<noteq> name \<and> ShortName opt \<noteq> name)"
  by (induction opts) auto

lemma rangeOptions_Some_D:
  "rangeOptions opts name = Some x \<Longrightarrow>
     x \<in> set opts \<and> (LongName x = name \<or> ShortName x = name)"
  by (induction opts) (auto split: if_splits)

lemma rangeOptions_append:
  "rangeOptions (xs @ ys) name =
     (case rangeOptions xs name of Some opt \<Rightarrow> Some opt | None \<Rightarrow> rangeOptions ys name)"
  by (induction xs) auto

lemma rangeOptions_filter:
  "rangeOptions opts name =
     (case filter (\<lambda>opt. ShortName opt = name \<or> LongName opt = name) opts of
        [] \<Rightarrow> None
      | x # rest \<Rightarrow> Some x)"
  by (induction opts) auto

lemma rangeOptions_hd:
  assumes "\<exists>opt \<in> set opts. ShortName opt = name \<or> LongName opt = name"
  shows "rangeOptions opts name =
     Some (hd (filter (\<lambda>opt. ShortName opt = name \<or> LongName opt = name) opts))"
proof -
  from assms have "filter (\<lambda>opt. ShortName opt = name \<or> LongName opt = name) opts \<noteq> []"
    by (simp add: filter_empty_conv)
  then show ?thesis
    by (simp add: rangeOptions_filter split: list.splits)
qed

section \<open>Properties of the resolver\<close>

lemma LookupOption_global:
  "rangeOptions globals name = Some opt \<Longrightarrow> LookupOption globals command name = Inr (Some opt)"
  by (simp add: LookupOption_def)

lemma LookupOption_nil:
  "rangeOptions globals name = None \<Longrightarrow> LookupOption globals None name = Inr None"
  by (simp add: LookupOption_def)

lemma LookupOption_command:
  "rangeOptions globals name = None \<Longrightarrow>
     LookupOption globals (Some c) name = Inr (rangeOptions (Options c) name)"
  by (simp add: LookupOption_def callOptions_def split: option.splits)

lemma LookupOption_scan:
  "LookupOption globals command name =
     Inr (rangeOptions (globals @ (case command of None \<Rightarrow> [] | Some c \<Rightarrow> Options c)) name)"
  by (cases command)
     (simp_all add: LookupOption_def callOptions_def rangeOptions_append split: option.splits)

lemma LookupOption_no_panic: "LookupOption globals command name \<noteq> Inl p"
  by (simp add: LookupOption_scan)

lemma globalOptions_names:
  assumes "g \<in> set globalOptions" and "ShortName g = name \<or> LongName g = name"
  shows "rangeOptions globalOptions name = Some g"
proof -
  from assms(1) have "g = globalOptions ! 0 \<or> g = globalOptions ! 1 \<or> g = globalOptions ! 2"
    by (simp add: globalOptions_def)
  then consider "g = globalOptions ! 0" | "g = globalOptions ! 1" | "g = globalOptions ! 2"
    by blast
  then show ?thesis
  proof cases
    case 1
    with assms(2) have "name = ''-v'' \<or> name = ''--verbose''" by (auto simp add: globalOptions_def)
    with 1 show ?thesis by (auto simp add: globalOptions_def)
  next
    case 2
    with assms(2) have "name = ''-h'' \<or> name = ''--help''" by (auto simp add: globalOptions_def)
    with 2 show ?thesis by (auto simp add: globalOptions_def)
  next
    case 3
    with assms(2) have "name = ''-V'' \<or> name = ''--version''" by (auto simp add: globalOptions_def)
    with 3 show ?thesis by (auto simp add: globalOptions_def)
  qed
qed

section \<open>Specified behaviour of the resolver\<close>

text \<open>
  C1: a name that is the short or the long name of a global option resolves to that
  global option, for every command argument (nil included), whatever the command's own
  options are: the scan of the registry returns before the command is looked at, so an
  option of the command with the same name is not the result.
\<close>

theorem LookupOption_global_wins:
  assumes "g \<in> set globalOptions"
    and "ShortName g = name \<or> LongName g = name"
  shows "LookupOption globalOptions command name = Inr (Some g)"
proof -
  from assms have "rangeOptions globalOptions name = Some g"
    by (rule globalOptions_names)
  then show ?thesis
    by (rule LookupOption_global)
qed

theorem LookupOption_global_wins_witness:
  "LookupOption globalOptions
     (Some \<lparr>Name = ''tag'', Synopsis = ''tag files'', Description = ''applies tags'',
            Options = [\<lparr>ShortName = ''-x'', LongName = ''--verbose'',
                        Option.Description = ''the command's own verbose''\<rparr>],
            Exec = (\<lambda>options args. None)\<rparr>)
     ''--verbose''
   = Inr (Some \<lparr>ShortName = ''-v'', LongName = ''--verbose'',
                 Option.Description = ''show verbose messages''\<rparr>)"
  by (rule LookupOption_global_wins) (simp_all add: globalOptions_def)

text \<open>
  C2: when no global option has the name and some option of the command has it, the
  resolver returns the first option of the command, in the order of
  \<^verbatim>\<open>command.Options()\<close>, whose short or long name is the name. The list filtered
  below is not empty under the second hypothesis, so its head is that first option.
\<close>

theorem LookupOption_command_local:
  assumes "\<forall>g \<in> set globalOptions. ShortName g \<noteq> name \<and> LongName g \<noteq> name"
    and "\<exists>opt \<in> set (Options c). ShortName opt = name \<or> LongName opt = name"
  shows "LookupOption globalOptions (Some c) name =
     Inr (Some (hd (filter (\<lambda>opt. ShortName opt = name \<or> LongName opt = name) (Options c))))"
proof -
  from assms(1) have "rangeOptions globalOptions name = None"
    by (simp add: rangeOptions_None_iff)
  then have "LookupOption globalOptions (Some c) name = Inr (rangeOptions (Options c) name)"
    by (rule LookupOption_command)
  with assms(2) show ?thesis
    by (simp add: rangeOptions_hd)
qed

theorem LookupOption_command_local_witness:
  "LookupOption globalOptions
     (Some \<lparr>Name = ''tag'', Synopsis = ''tag files'', Description = ''applies tags'',
            Options = [\<lparr>ShortName = ''-r'', LongName = ''--recursive'',
                        Option.Description = ''apply recursively''\<rparr>,
                       \<lparr>ShortName = ''-a'', LongName = ''--all'',
                        Option.Description = ''apply to all files''\<rparr>],
            Exec = (\<lambda>options args. None)\<rparr>)
     ''--all''
   = Inr (Some \<lparr>ShortName = ''-a'', LongName = ''--all'',
                 Option.Description = ''apply to all files''\<rparr>)"
  using LookupOption_command_local
    [of "''--all''"
        "\<lparr>Name = ''tag'', Synopsis = ''tag files'', Description = ''applies tags'',
          Options = [\<lparr>ShortName = ''-r'', LongName = ''--recursive'',
                      Option.Description = ''apply recursively''\<rparr>,
                     \<lparr>ShortName = ''-a'', LongName = ''--all'',
                      Option.Description = ''apply to all files''\<rparr>],
          Exec = (\<lambda>options args. None)\<rparr>"]
  by (simp add: globalOptions_def)

text \<open>
  C3: when the name is neither the short nor the long name of a global option or of an
  option of the command (if there is a command), the resolver returns nil. The result
  is the ordinary return value \<open>Inr None\<close>, not a panic.
\<close>

theorem LookupOption_not_found:
  assumes "\<forall>g \<in> set globalOptions. ShortName g \<noteq> name \<and> LongName g \<noteq> name"
    and "\<forall>c. command = Some c \<longrightarrow>
           (\<forall>opt \<in> set (Options c). ShortName opt \<noteq> name \<and> LongName opt \<noteq> name)"
  shows "LookupOption globalOptions command name = Inr None"
proof -
  from assms(1) have globals: "rangeOptions globalOptions name = None"
    by (simp add: rangeOptions_None_iff)
  show ?thesis
  proof (cases command)
    case None
    with globals show ?thesis
      by (simp add: LookupOption_nil)
  next
    case (Some c)
    with assms(2) have "rangeOptions (Options c) name = None"
      by (simp add: rangeOptions_None_iff)
    with globals Some show ?thesis
      by (simp add: LookupOption_command)
  qed
qed

theorem LookupOption_not_found_witness:
  "LookupOption globalOptions
     (Some \<lparr>Name = ''tag'', Synopsis = ''tag files'', Description = ''applies tags'',
            Options = [\<lparr>ShortName = ''-a'', LongName = ''--all'',
                        Option.Description = ''apply to all files''\<rparr>],
            Exec = (\<lambda>options args. None)\<rparr>)
     ''--bogus''
   = Inr None
   \<and> LookupOption globalOptions None ''--bogus'' = Inr None"
  using LookupOption_not_found
    [of "''--bogus''"
        "Some \<lparr>Name = ''tag'', Synopsis = ''tag files'', Description = ''applies tags'',
          Options = [\<lparr>ShortName = ''-a'', LongName = ''--all'',
                      Option.Description = ''apply to all files''\<rparr>],
          Exec = (\<lambda>options args. None)\<rparr>"]
    LookupOption_not_found [of "''--bogus''" None]
  by (simp add: globalOptions_def)

text \<open>
  C4: the global option registry is the sequence of exactly three options, in this
  order: short name \<^verbatim>\<open>-v\<close>, long name \<^verbatim>\<open>--verbose\<close>, description "show verbose
  messages"; then \<^verbatim>\<open>-h\<close>, \<^verbatim>\<open>--help\<close>, "show help and exit"; then \<^verbatim>\<open>-V\<close>,
  \<^verbatim>\<open>--version\<close>, "show version information and exit".
\<close>

theorem globalOptions_registry:
  "globalOptions =
     [\<lparr>ShortName = ''-v'', LongName = ''--verbose'',
       Option.Description = ''show verbose messages''\<rparr>,
      \<lparr>ShortName = ''-h'', LongName = ''--help'',
       Option.Description = ''show help and exit''\<rparr>,
      \<lparr>ShortName = ''-V'', LongName = ''--version'',
       Option.Description = ''show version information and exit''\<rparr>]
   \<and> length globalOptions = 3
   \<and> map ShortName globalOptions = [''-v'', ''-h'', ''-V'']
   \<and> map LongName globalOptions = [''--verbose'', ''--help'', ''--version'']
   \<and> map Option.Description globalOptions =
       [''show verbose messages'', ''show help and exit'', ''show version information and exit'']"
  by (simp add: globalOptions_def)

text \<open>
  C5: with the nil command the result is that of the scan of the registry alone: the
  global option that has the name when there is one (the help option for \<^verbatim>\<open>-h\<close>),
  nil otherwise. The call never panics: \<^verbatim>\<open>command.Options()\<close>, which would panic on
  nil, is behind the test \<^verbatim>\<open>command != nil\<close> and is not reached.
\<close>

theorem LookupOption_nil_command:
  "LookupOption globalOptions None name = Inr (rangeOptions globalOptions name)
   \<and> (\<forall>g \<in> set globalOptions. ShortName g = name \<or> LongName g = name \<longrightarrow>
          LookupOption globalOptions None name = Inr (Some g))
   \<and> ((\<forall>g \<in> set globalOptions. ShortName g \<noteq> name \<and> LongName g \<noteq> name) \<longrightarrow>
          LookupOption globalOptions None name = Inr None)
   \<and> (\<forall>p. LookupOption globalOptions None name \<noteq> Inl p)
   \<and> LookupOption globalOptions None ''-h'' =
         Inr (Some \<lparr>ShortName = ''-h'', LongName = ''--help'',
                     Option.Description = ''show help and exit''\<rparr>)"
proof (intro conjI ballI impI allI)
  show "LookupOption globalOptions None name = Inr (rangeOptions globalOptions name)"
    by (simp add: LookupOption_scan)
next
  fix g
  assume "g \<in> set globalOptions" and "ShortName g = name \<or> LongName g = name"
  then have "rangeOptions globalOptions name = Some g"
    by (rule globalOptions_names)
  then show "LookupOption globalOptions None name = Inr (Some g)"
    by (rule LookupOption_global)
next
  assume "\<forall>g \<in> set globalOptions. ShortName g \<noteq> name \<and> LongName g \<noteq> name"
  then have "rangeOptions globalOptions name = None"
    by (simp add: rangeOptions_None_iff)
  then show "LookupOption globalOptions None name = Inr None"
    by (rule LookupOption_nil)
next
  fix p
  show "LookupOption globalOptions None name \<noteq> Inl p"
    by (rule LookupOption_no_panic)
next
  show "LookupOption globalOptions None ''-h'' =
         Inr (Some \<lparr>ShortName = ''-h'', LongName = ''--help'',
                     Option.Description = ''show help and exit''\<rparr>)"
    by (simp add: LookupOption_def globalOptions_def)
qed

theorem LookupOption_nil_command_witness:
  "LookupOption globalOptions None ''--version'' =
     Inr (Some \<lparr>ShortName = ''-V'', LongName = ''--version'',
                 Option.Description = ''show version information and exit''\<rparr>)
   \<and> LookupOption globalOptions None ''--bogus'' = Inr None"
  using LookupOption_nil_command [of "''--version''"] LookupOption_nil_command [of "''--bogus''"]
  by (simp add: globalOptions_def)

text \<open>
  C6: a name resolves to an option only if it is equal, character for character, to the
  option's short name or long name. \<^verbatim>\<open>-V\<close> resolves to the version option and
  \<^verbatim>\<open>-v\<close> to the verbose option, two different results, for every command argument.
  A prefix of a name, a name in another case, a name without its dashes and a name
  followed by a space resolve to nothing when no command is given.
\<close>

theorem LookupOption_exact_match:
  "(LookupOption globalOptions command name = Inr (Some opt) \<longrightarrow>
      ShortName opt = name \<or> LongName opt = name)
   \<and> LookupOption globalOptions command ''-V'' =
         Inr (Some \<lparr>ShortName = ''-V'', LongName = ''--version'',
                     Option.Description = ''show version information and exit''\<rparr>)
   \<and> LookupOption globalOptions command ''-v'' =
         Inr (Some \<lparr>ShortName = ''-v'', LongName = ''--verbose'',
                     Option.Description = ''show verbose messages''\<rparr>)
   \<and> LookupOption globalOptions command ''-V'' \<noteq> LookupOption globalOptions command ''-v''
   \<and> LookupOption globalOptions None ''--verb'' = Inr None
   \<and> LookupOption globalOptions None ''--Verbose'' = Inr None
   \<and> LookupOption globalOptions None ''verbose'' = Inr None
   \<and> LookupOption globalOptions None ''-v '' = Inr None"
proof -
  have exact: "LookupOption globalOptions command name = Inr (Some opt) \<longrightarrow>
      ShortName opt = name \<or> LongName opt = name"
  proof
    assume "LookupOption globalOptions command name = Inr (Some opt)"
    then have "rangeOptions
        (globalOptions @ (case command of None \<Rightarrow> [] | Some c \<Rightarrow> Options c)) name = Some opt"
      by (simp add: LookupOption_scan)
    then show "ShortName opt = name \<or> LongName opt = name"
      by (auto dest: rangeOptions_Some_D)
  qed
  have version: "LookupOption globalOptions command ''-V'' =
         Inr (Some \<lparr>ShortName = ''-V'', LongName = ''--version'',
                     Option.Description = ''show version information and exit''\<rparr>)"
    by (rule LookupOption_global) (simp add: globalOptions_def)
  have verbose: "LookupOption globalOptions command ''-v'' =
         Inr (Some \<lparr>ShortName = ''-v'', LongName = ''--verbose'',
                     Option.Description = ''show verbose messages''\<rparr>)"
    by (rule LookupOption_global) (simp add: globalOptions_def)
  have distinct: "LookupOption globalOptions command ''-V'' \<noteq> LookupOption globalOptions command ''-v''"
    by (simp add: version verbose)
  have none: "LookupOption globalOptions None ''--verb'' = Inr None"
    "LookupOption globalOptions None ''--Verbose'' = Inr None"
    "LookupOption globalOptions None ''verbose'' = Inr None"
    "LookupOption globalOptions None ''-v '' = Inr None"
    by (simp_all add: LookupOption_def globalOptions_def)
  from exact version verbose distinct none show ?thesis
    by blast
qed

theorem LookupOption_exact_match_witness:
  "LookupOption globalOptions None ''--help'' =
     Inr (Some \<lparr>ShortName = ''-h'', LongName = ''--help'',
                 Option.Description = ''show help and exit''\<rparr>)
   \<and> LongName \<lparr>ShortName = ''-h'', LongName = ''--help'',
                 Option.Description = ''show help and exit''\<rparr> = ''--help''"
proof -
  have found: "LookupOption globalOptions None ''--help'' =
     Inr (Some \<lparr>ShortName = ''-h'', LongName = ''--help'',
                 Option.Description = ''show help and exit''\<rparr>)"
    by (simp add: LookupOption_def globalOptions_def)
  with LookupOption_exact_match [of None "''--help''"
      "\<lparr>ShortName = ''-h'', LongName = ''--help'', Option.Description = ''show help and exit''\<rparr>"]
  show ?thesis
    by simp
qed



text \<open>
  C8, amended: when several options of the registry have the name, the resolver returns
  the first of them in the registry's order, for every command argument; when no option
  of the registry has the name and several options of the command have it, the resolver
  returns the first of them in the command's order. The registry is any sequence here,
  since the one of this program has no two options with a common name.
\<close>

theorem LookupOption_tie_break:
  "((\<exists>g \<in> set globals. ShortName g = name \<or> LongName g = name) \<longrightarrow>
      LookupOption globals command name =
        Inr (Some (hd (filter (\<lambda>opt. ShortName opt = name \<or> LongName opt = name) globals))))
   \<and> ((\<forall>g \<in> set globals. ShortName g \<noteq> name \<and> LongName g \<noteq> name)
        \<and> (\<exists>opt \<in> set (Options c). ShortName opt = name \<or> LongName opt = name) \<longrightarrow>
      LookupOption globals (Some c) name =
        Inr (Some (hd (filter (\<lambda>opt. ShortName opt = name \<or> LongName opt = name) (Options c)))))"
proof (intro conjI impI)
  assume "\<exists>g \<in> set globals. ShortName g = name \<or> LongName g = name"
  then have "rangeOptions globals name =
      Some (hd (filter (\<lambda>opt. ShortName opt = name \<or> LongName opt = name) globals))"
    by (rule rangeOptions_hd)
  then show "LookupOption globals command name =
      Inr (Some (hd (filter (\<lambda>opt. ShortName opt = name \<or> LongName opt = name) globals)))"
    by (rule LookupOption_global)
next
  assume both: "(\<forall>g \<in> set globals. ShortName g \<noteq> name \<and> LongName g \<noteq> name)
        \<and> (\<exists>opt \<in> set (Options c). ShortName opt = name \<or> LongName opt = name)"
  then have "rangeOptions globals name = None"
    by (simp add: rangeOptions_None_iff)
  then have "LookupOption globals (Some c) name = Inr (rangeOptions (Options c) name)"
    by (rule LookupOption_command)
  moreover from both have "rangeOptions (Options c) name =
      Some (hd (filter (\<lambda>opt. ShortName opt = name \<or> LongName opt = name) (Options c)))"
    by (simp add: rangeOptions_hd)
  ultimately show "LookupOption globals (Some c) name =
      Inr (Some (hd (filter (\<lambda>opt. ShortName opt = name \<or> LongName opt = name) (Options c))))"
    by simp
qed

theorem LookupOption_tie_break_witness:
  "LookupOption
     [\<lparr>ShortName = ''-x'', LongName = ''--one'', Option.Description = ''declared first''\<rparr>,
      \<lparr>ShortName = ''-x'', LongName = ''--two'', Option.Description = ''declared second''\<rparr>]
     None ''-x''
   = Inr (Some \<lparr>ShortName = ''-x'', LongName = ''--one'',
                 Option.Description = ''declared first''\<rparr>)
   \<and> LookupOption globalOptions
     (Some \<lparr>Name = ''tag'', Synopsis = ''tag files'', Description = ''applies tags'',
            Options = [\<lparr>ShortName = ''-r'', LongName = ''--recursive'',
                        Option.Description = ''apply recursively''\<rparr>,
                       \<lparr>ShortName = ''-a'', LongName = ''--all'',
                        Option.Description = ''declared first''\<rparr>,
                       \<lparr>ShortName = ''-A'', LongName = ''--all'',
                        Option.Description = ''declared second''\<rparr>],
            Exec = (\<lambda>options args. None)\<rparr>)
     ''--all''
   = Inr (Some \<lparr>ShortName = ''-a'', LongName = ''--all'',
                 Option.Description = ''declared first''\<rparr>)"
  using LookupOption_tie_break
    [where globals = "[\<lparr>ShortName = ''-x'', LongName = ''--one'', Option.Description = ''declared first''\<rparr>,
          \<lparr>ShortName = ''-x'', LongName = ''--two'', Option.Description = ''declared second''\<rparr>]"
        and name = "''-x''" and command = None, THEN conjunct1]
    LookupOption_tie_break
    [where globals = globalOptions and name = "''--all''" and c =
        "\<lparr>Name = ''tag'', Synopsis = ''tag files'', Description = ''applies tags'',
            Options = [\<lparr>ShortName = ''-r'', LongName = ''--recursive'',
                        Option.Description = ''apply recursively''\<rparr>,
                       \<lparr>ShortName = ''-a'', LongName = ''--all'',
                        Option.Description = ''declared first''\<rparr>,
                       \<lparr>ShortName = ''-A'', LongName = ''--all'',
                        Option.Description = ''declared second''\<rparr>],
            Exec = (\<lambda>options args. None)\<rparr>", THEN conjunct2]
  by (simp add: globalOptions_def)

text \<open>
  Without the condition on the registry the tie-break does not hold for the command's
  scope: a command that declares \<^verbatim>\<open>-v\<close> twice gets the global verbose option for
  \<^verbatim>\<open>-v\<close>, not the first of its own two.
\<close>

theorem LookupOption_tie_break_counterexample:
  "LookupOption globalOptions
     (Some \<lparr>Name = ''tag'', Synopsis = ''tag files'', Description = ''applies tags'',
            Options = [\<lparr>ShortName = ''-v'', LongName = ''--first'',
                        Option.Description = ''declared first''\<rparr>,
                       \<lparr>ShortName = ''-v'', LongName = ''--second'',
                        Option.Description = ''declared second''\<rparr>],
            Exec = (\<lambda>options args. None)\<rparr>)
     ''-v''
   = Inr (Some \<lparr>ShortName = ''-v'', LongName = ''--verbose'',
                 Option.Description = ''show verbose messages''\<rparr>)
   \<and> LookupOption globalOptions
     (Some \<lparr>Name = ''tag'', Synopsis = ''tag files'', Description = ''applies tags'',
            Options = [\<lparr>ShortName = ''-v'', LongName = ''--first'',
                        Option.Description = ''declared first''\<rparr>,
                       \<lparr>ShortName = ''-v'', LongName = ''--second'',
                        Option.Description = ''declared second''\<rparr>],
            Exec = (\<lambda>options args. None)\<rparr>)
     ''-v''
   \<noteq> Inr (Some \<lparr>ShortName = ''-v'', LongName = ''--first'',
                 Option.Description = ''declared first''\<rparr>)"
  by (simp add: LookupOption_def globalOptions_def)

text \<open>
  C9: an option that the resolver returns is equal to an element of the registry or of
  the command's option sequence, and the name is that option's short or long name.
\<close>

theorem LookupOption_sound:
  assumes "LookupOption globalOptions command name = Inr (Some opt)"
  shows "(opt \<in> set globalOptions \<or> (\<exists>c. command = Some c \<and> opt \<in> set (Options c)))
     \<and> (ShortName opt = name \<or> LongName opt = name)"
proof (cases "rangeOptions globalOptions name")
  case (Some g)
  then have "LookupOption globalOptions command name = Inr (Some g)"
    by (rule LookupOption_global)
  with assms have "g = opt"
    by simp
  with Some show ?thesis
    by (auto dest: rangeOptions_Some_D)
next
  case None
  show ?thesis
  proof (cases command)
    case nil: None
    from None have "LookupOption globalOptions None name = Inr None"
      by (rule LookupOption_nil)
    with assms nil show ?thesis
      by simp
  next
    case (Some c)
    from None have "LookupOption globalOptions (Some c) name = Inr (rangeOptions (Options c) name)"
      by (rule LookupOption_command)
    with assms Some have "rangeOptions (Options c) name = Some opt"
      by simp
    with Some show ?thesis
      by (auto dest: rangeOptions_Some_D)
  qed
qed

theorem LookupOption_sound_witness:
  "LookupOption globalOptions
     (Some \<lparr>Name = ''tag'', Synopsis = ''tag files'', Description = ''applies tags'',
            Options = [\<lparr>ShortName = ''-a'', LongName = ''--all'',
                        Option.Description = ''apply to all files''\<rparr>],
            Exec = (\<lambda>options args. None)\<rparr>)
     ''--all''
   = Inr (Some \<lparr>ShortName = ''-a'', LongName = ''--all'',
                 Option.Description = ''apply to all files''\<rparr>)
   \<and> LongName \<lparr>ShortName = ''-a'', LongName = ''--all'',
                Option.Description = ''apply to all files''\<rparr> = ''--all''"
proof -
  have found: "LookupOption globalOptions
     (Some \<lparr>Name = ''tag'', Synopsis = ''tag files'', Description = ''applies tags'',
            Options = [\<lparr>ShortName = ''-a'', LongName = ''--all'',
                        Option.Description = ''apply to all files''\<rparr>],
            Exec = (\<lambda>options args. None)\<rparr>)
     ''--all''
   = Inr (Some \<lparr>ShortName = ''-a'', LongName = ''--all'',
                 Option.Description = ''apply to all files''\<rparr>)"
    by (simp add: LookupOption_def callOptions_def globalOptions_def)
  from LookupOption_sound [OF found] found show ?thesis
    by simp
qed

text \<open>
  C10: the empty name is treated as any other. No global option has an empty short or
  long name, so when some option of the command has one, the resolver called with the
  empty name returns the first such option of the command.
\<close>

theorem LookupOption_empty_name:
  "(\<forall>g \<in> set globalOptions. ShortName g \<noteq> [] \<and> LongName g \<noteq> [])
   \<and> ((\<exists>opt \<in> set (Options c). ShortName opt = [] \<or> LongName opt = []) \<longrightarrow>
        LookupOption globalOptions (Some c) [] =
          Inr (Some (hd (filter (\<lambda>opt. ShortName opt = [] \<or> LongName opt = []) (Options c)))))"
proof (intro conjI impI)
  show globals: "\<forall>g \<in> set globalOptions. ShortName g \<noteq> [] \<and> LongName g \<noteq> []"
    by (simp add: globalOptions_def)
  assume local: "\<exists>opt \<in> set (Options c). ShortName opt = [] \<or> LongName opt = []"
  from globals have "rangeOptions globalOptions [] = None"
    by (simp add: rangeOptions_None_iff)
  then have "LookupOption globalOptions (Some c) [] = Inr (rangeOptions (Options c) [])"
    by (rule LookupOption_command)
  also from local have "rangeOptions (Options c) [] =
      Some (hd (filter (\<lambda>opt. ShortName opt = [] \<or> LongName opt = []) (Options c)))"
    by (rule rangeOptions_hd)
  finally show "LookupOption globalOptions (Some c) [] =
      Inr (Some (hd (filter (\<lambda>opt. ShortName opt = [] \<or> LongName opt = []) (Options c))))" .
qed

theorem LookupOption_empty_name_witness:
  "LookupOption globalOptions
     (Some \<lparr>Name = ''tag'', Synopsis = ''tag files'', Description = ''applies tags'',
            Options = [\<lparr>ShortName = ''-a'', LongName = ''--all'',
                        Option.Description = ''apply to all files''\<rparr>,
                       \<lparr>ShortName = '''', LongName = ''--explicit'',
                        Option.Description = ''long form only''\<rparr>,
                       \<lparr>ShortName = ''-f'', LongName = '''',
                        Option.Description = ''short form only''\<rparr>],
            Exec = (\<lambda>options args. None)\<rparr>)
     ''''
   = Inr (Some \<lparr>ShortName = '''', LongName = ''--explicit'',
                 Option.Description = ''long form only''\<rparr>)"
  using LookupOption_empty_name
    [of "\<lparr>Name = ''tag'', Synopsis = ''tag files'', Description = ''applies tags'',
            Options = [\<lparr>ShortName = ''-a'', LongName = ''--all'',
                        Option.Description = ''apply to all files''\<rparr>,
                       \<lparr>ShortName = '''', LongName = ''--explicit'',
                        Option.Description = ''long form only''\<rparr>,
                       \<lparr>ShortName = ''-f'', LongName = '''',
                        Option.Description = ''short form only''\<rparr>],
            Exec = (\<lambda>options args. None)\<rparr>", THEN conjunct2]
  by simp

end
